theory Spec2Isabelle
  imports Complex_Main "HOL-Library.Sublist"
begin

section \<open>SUMO2GRAL: the orchestration of \<^verbatim>\<open>main.py\<close>\<close>

text \<open>
  \<^verbatim>\<open>main.py\<close> holds two functions, \<^verbatim>\<open>create_shapefile\<close> and \<^verbatim>\<open>main\<close>. Both are
  straight-line sequences of calls into collaborators (the building, weather, highway,
  map and GRAL modules of the repository, and the libraries osmnx, geopandas, pandas and
  sumolib), guarded by the process mode and wrapped in \<^verbatim>\<open>try/except Exception\<close>.

  The embedding keeps that shape. A collaborator is a parameter: a function that takes
  the outside world (the disk, the state of the module objects) and returns the new
  world together with either the value it returns or the exception it raises. The two
  functions of the source are written over these parameters in an exception and state
  passing style, and every call they make is recorded, in order, in a trace.
\<close>

subsection \<open>Data\<close>

text \<open>
  The bounding box is the dictionary with the keys north, south, east and west. The type
  \<open>'n\<close> of its scalars is left open: the source only adds two of them and halves the
  sum, so every statement below holds for whatever number type carries \<open>+\<close> and \<open>/\<close>.
\<close>

record 'n location =
  north :: 'n
  south :: 'n
  east :: 'n
  west :: 'n

text \<open>
  The argument object \<^verbatim>\<open>args\<close>, with the attributes that \<^verbatim>\<open>main\<close> reads. The day and the
  hour of the weather slice are optional (\<^verbatim>\<open>None\<close> in the source).
\<close>

record 'n args = "'n location" +
  base_directory :: string
  met_file :: string
  buildings_shapefile_filename :: string
  highways_shapefile_filename :: string
  process :: string
  epsg :: int
  input_weather_file :: string
  output_weather_file :: string
  weather_day :: "string option"
  weather_hour :: "int option"
  net_file :: string
  emissions_file :: string
  map_filename :: string

text \<open>
  A row of a weather data frame: the two columns the source reads, \<^verbatim>\<open>fecha\<close> and
  \<^verbatim>\<open>hora\<close>, and the remaining columns as one opaque value. A data frame is the list of
  its rows, in order. Every other object that only passes through \<^verbatim>\<open>main\<close> (a
  GeoDataFrame, a SUMO network, a list of identifiers) is a value of the open type \<open>'o\<close>.
\<close>

record 'o row =
  fecha :: string
  hora :: int
  cols :: 'o

text \<open>
  An exception: an instance of Python's class \<^verbatim>\<open>Exception\<close>, with the name of its class
  and the text \<^verbatim>\<open>str(e)\<close>. This is what a collaborator raises when it fails and what
  \<^verbatim>\<open>except Exception\<close> matches. The signals outside that class (\<^verbatim>\<open>KeyboardInterrupt\<close>,
  \<^verbatim>\<open>SystemExit\<close>) are requests to stop the process that arrive from outside the program;
  they are not part of this sequential model.
\<close>

datatype exn = Exception (exn_class: string) (exn_str: string)

subsection \<open>Calls and the trace\<close>

text \<open>One constructor for each call that leaves \<^verbatim>\<open>main.py\<close>, with its arguments.\<close>

datatype ('n, 'o) call =
    New_Buildings "'n location"
  | New_Weather string
  | New_Highways "'n location"
  | New_Maps string
  | New_GRAL string string string string
  | Process_buildings
  | Project_gdf 'o string
  | Set_crs 'o string
  | To_file 'o string
  | Process_weather_data string
  | Create_met_file "'o row list"
  | Write_to_files "'o row list" string
  | ReadNet string
  | Process_highway_data 'o
  | Osmid_tolist 'o
  | Process_sumo_edges_emissions_file string 'o 'o
  | Combine_sumo_emissions_and_highway_data 'o 'o
  | Convert_coordinates 'n 'n int int
  | Create_georeferenced_map "'n location" int string
  | Create_greb_file "'n location" int
  | Create_in_dat_file int int 'n "int list"
  | Create_meteogpt_file
  | Create_other_txt_requiered_files string int
  | Create_buildings_file
  | Create_line_emissions_file string
  | Create_other_optional_files

text \<open>
  An entry of the trace is a finished call (the world it started in, the call, the
  exception it raised if any, the world it left) or a line printed by \<^verbatim>\<open>main.py\<close>.
\<close>

datatype ('n, 'o, 'w) entry =
    Call 'w "('n, 'o) call" "exn option" 'w
  | Print string

record ('n, 'o, 'w) state =
  world :: 'w
  trace :: "('n, 'o, 'w) entry list"

type_synonym ('w, 'a) ext = "'w \<Rightarrow> (exn + 'a) \<times> 'w"

type_synonym ('n, 'o, 'w, 'a) py = "('n, 'o, 'w) state \<Rightarrow> (exn + 'a) \<times> ('n, 'o, 'w) state"

definition ret :: "'a \<Rightarrow> ('n, 'o, 'w, 'a) py" where
  "ret x s = (Inr x, s)"

definition bnd :: "('n, 'o, 'w, 'a) py \<Rightarrow> ('a \<Rightarrow> ('n, 'o, 'w, 'b) py) \<Rightarrow> ('n, 'o, 'w, 'b) py" where
  "bnd m f s = (case m s of (Inl e, s') \<Rightarrow> (Inl e, s') | (Inr x, s') \<Rightarrow> f x s')"

definition outcome :: "exn + 'a \<Rightarrow> exn option" where
  "outcome r = (case r of Inl e \<Rightarrow> Some e | Inr x \<Rightarrow> None)"

definition call :: "('n, 'o) call \<Rightarrow> ('w, 'a) ext \<Rightarrow> ('n, 'o, 'w, 'a) py" where
  "call c f s =
     (case f (world s) of
        (r, w') \<Rightarrow> (r, \<lparr>world = w', trace = trace s @ [Call (world s) c (outcome r) w']\<rparr>))"

definition print_py :: "string \<Rightarrow> ('n, 'o, 'w, unit) py" where
  "print_py msg s = (Inr (), s\<lparr>trace := trace s @ [Print msg]\<rparr>)"

definition try_except :: "('n, 'o, 'w, 'a) py \<Rightarrow> (exn \<Rightarrow> ('n, 'o, 'w, 'a) py) \<Rightarrow> ('n, 'o, 'w, 'a) py" where
  "try_except m h s = (case m s of (Inl e, s') \<Rightarrow> h e s' | (Inr x, s') \<Rightarrow> (Inr x, s'))"

definition when_py :: "bool \<Rightarrow> ('n, 'o, 'w, unit) py \<Rightarrow> ('n, 'o, 'w, unit) py" where
  "when_py b m = (if b then m else ret ())"

subsection \<open>Formatting\<close>

text \<open>\<^verbatim>\<open>str\<close> of an integer, as an f-string renders it.\<close>

fun str_nat :: "nat \<Rightarrow> string" where
  "str_nat n =
     (if n < 10 then [''0123456789'' ! n]
      else str_nat (n div 10) @ [''0123456789'' ! (n mod 10)])"

declare str_nat.simps [simp del]

definition str_int :: "int \<Rightarrow> string" where
  "str_int i = (if i < 0 then CHR ''-'' # str_nat (nat (- i)) else str_nat (nat i))"

subsection \<open>The collaborators\<close>

record ('n, 'o, 'w) env =
  new_Buildings :: "'n location \<Rightarrow> ('w, unit) ext"
  new_Weather :: "string \<Rightarrow> ('w, unit) ext"
  new_Highways :: "'n location \<Rightarrow> ('w, unit) ext"
  new_Maps :: "string \<Rightarrow> ('w, unit) ext"
  new_GRAL :: "string \<Rightarrow> string \<Rightarrow> string \<Rightarrow> string \<Rightarrow> ('w, unit) ext"
  process_buildings :: "('w, 'o) ext"
  project_gdf :: "'o \<Rightarrow> string \<Rightarrow> ('w, 'o) ext"
  set_crs :: "'o \<Rightarrow> string \<Rightarrow> ('w, 'o) ext"
  to_file :: "'o \<Rightarrow> string \<Rightarrow> ('w, unit) ext"
  process_weather_data :: "string \<Rightarrow> ('w, 'o row list \<times> 'o row list) ext"
  create_met_file :: "'o row list \<Rightarrow> ('w, unit) ext"
  write_to_files :: "'o row list \<Rightarrow> string \<Rightarrow> ('w, unit) ext"
  readNet :: "string \<Rightarrow> ('w, 'o) ext"
  process_highway_data :: "'o \<Rightarrow> ('w, 'o) ext"
  osmid_tolist :: "'o \<Rightarrow> ('w, 'o) ext"
  process_sumo_edges_emissions_file :: "string \<Rightarrow> 'o \<Rightarrow> 'o \<Rightarrow> ('w, 'o) ext"
  combine_sumo_emissions_and_highway_data :: "'o \<Rightarrow> 'o \<Rightarrow> ('w, 'o) ext"
  convert_coordinates :: "'n \<Rightarrow> 'n \<Rightarrow> int \<Rightarrow> int \<Rightarrow> ('w, 'n \<times> 'n) ext"
  create_georeferenced_map :: "'n location \<Rightarrow> int \<Rightarrow> string \<Rightarrow> ('w, unit) ext"
  create_greb_file :: "'n location \<Rightarrow> int \<Rightarrow> ('w, unit) ext"
  create_in_dat_file :: "int \<Rightarrow> int \<Rightarrow> 'n \<Rightarrow> int list \<Rightarrow> ('w, unit) ext"
  create_meteogpt_file :: "('w, unit) ext"
  create_other_txt_requiered_files :: "string \<Rightarrow> int \<Rightarrow> ('w, unit) ext"
  create_buildings_file :: "('w, unit) ext"
  create_line_emissions_file :: "string \<Rightarrow> ('w, unit) ext"
  create_other_optional_files :: "('w, unit) ext"

subsection \<open>\<^verbatim>\<open>create_shapefile\<close>\<close>

definition create_shapefile ::
    "('n, 'o, 'w) env \<Rightarrow> 'o \<Rightarrow> string \<Rightarrow> string \<Rightarrow> string \<Rightarrow> ('n, 'o, 'w, unit) py" where
  "create_shapefile E geo_df coordinate_system directory filename =
     bnd (print_py ''Creating shapefile...'') (\<lambda>_.
     try_except
       (bnd (call (Project_gdf geo_df coordinate_system)
                  (project_gdf E geo_df coordinate_system)) (\<lambda>geo_df_reprojected.
        bnd (call (Set_crs geo_df_reprojected coordinate_system)
                  (set_crs E geo_df_reprojected coordinate_system)) (\<lambda>geo_df_reprojected.
        call (To_file geo_df_reprojected (directory @ ''/'' @ filename))
             (to_file E geo_df_reprojected (directory @ ''/'' @ filename)))))
       (\<lambda>e. print_py (''Failed to create shapefile: '' @ exn_str e)))"

subsection \<open>\<^verbatim>\<open>main\<close>\<close>

text \<open>The dictionary \<^verbatim>\<open>location\<close> that \<^verbatim>\<open>main\<close> builds from the arguments.\<close>

definition location :: "'n args \<Rightarrow> 'n location" where
  "location a = \<lparr>north = north a, south = south a, east = east a, west = west a\<rparr>"

text \<open>The branch for the process modes \<^verbatim>\<open>all\<close> and \<^verbatim>\<open>buildings\<close>.\<close>

definition buildings_branch :: "('n, 'o, 'w) env \<Rightarrow> 'n args \<Rightarrow> ('n, 'o, 'w, unit) py" where
  "buildings_branch E a =
     bnd (call Process_buildings (process_buildings E)) (\<lambda>buildings_gdf.
     create_shapefile E buildings_gdf (''EPSG:'' @ str_int (epsg a))
       (base_directory a) (buildings_shapefile_filename a))"

text \<open>
  The two weather slices: the rows of the met data frame whose \<^verbatim>\<open>fecha\<close> equals the
  requested day, and the rows of that day's frame whose \<^verbatim>\<open>hora\<close> equals the requested
  hour. Indexing a data frame with a boolean mask keeps the selected rows, in order.
\<close>

definition day_met_file_df :: "'o row list \<Rightarrow> string \<Rightarrow> 'o row list" where
  "day_met_file_df met_file_df day = filter (\<lambda>r. fecha r = day) met_file_df"

definition hour_met_file_df :: "'o row list \<Rightarrow> int \<Rightarrow> 'o row list" where
  "hour_met_file_df day_df hour = filter (\<lambda>r. hora r = hour) day_df"

text \<open>The branch for the process modes \<^verbatim>\<open>all\<close> and \<^verbatim>\<open>weather\<close>.\<close>

definition weather_branch :: "('n, 'o, 'w) env \<Rightarrow> 'n args \<Rightarrow> ('n, 'o, 'w, unit) py" where
  "weather_branch E a =
     bnd (call (Process_weather_data (input_weather_file a))
               (process_weather_data E (input_weather_file a))) (\<lambda>(weather_df, met_file_df).
     bnd (call (Create_met_file met_file_df) (create_met_file E met_file_df)) (\<lambda>_.
     bnd (call (Write_to_files weather_df (output_weather_file a @ ''.csv''))
               (write_to_files E weather_df (output_weather_file a @ ''.csv''))) (\<lambda>_.
     bnd (call (Write_to_files met_file_df (output_weather_file a @ ''.met''))
               (write_to_files E met_file_df (output_weather_file a @ ''.met''))) (\<lambda>_.
     (case weather_day a of
        None \<Rightarrow> ret ()
      | Some day \<Rightarrow>
          bnd (call (Write_to_files (day_met_file_df met_file_df day)
                       (output_weather_file a @ ''_'' @ day @ ''.met''))
                    (write_to_files E (day_met_file_df met_file_df day)
                       (output_weather_file a @ ''_'' @ day @ ''.met''))) (\<lambda>_.
          (case weather_hour a of
             None \<Rightarrow> ret ()
           | Some hour \<Rightarrow>
               call (Write_to_files (hour_met_file_df (day_met_file_df met_file_df day) hour)
                       (output_weather_file a @ ''_'' @ day @ ''_'' @ str_int hour @ ''.met''))
                    (write_to_files E (hour_met_file_df (day_met_file_df met_file_df day) hour)
                       (output_weather_file a @ ''_'' @ day @ ''_'' @ str_int hour @ ''.met'')))))))))"

text \<open>The branch for the process modes \<^verbatim>\<open>all\<close> and \<^verbatim>\<open>highway\<close>.\<close>

definition highway_branch :: "('n, 'o, 'w) env \<Rightarrow> 'n args \<Rightarrow> ('n, 'o, 'w, unit) py" where
  "highway_branch E a =
     bnd (call (ReadNet (net_file a)) (readNet E (net_file a))) (\<lambda>net.
     bnd (call (Process_highway_data net) (process_highway_data E net)) (\<lambda>highway_gdf.
     bnd (call (Osmid_tolist highway_gdf) (osmid_tolist E highway_gdf)) (\<lambda>osmids.
     bnd (call (Process_sumo_edges_emissions_file (emissions_file a) net osmids)
               (process_sumo_edges_emissions_file E (emissions_file a) net osmids))
         (\<lambda>sumo_emissions_df.
     bnd (call (Combine_sumo_emissions_and_highway_data sumo_emissions_df highway_gdf)
               (combine_sumo_emissions_and_highway_data E sumo_emissions_df highway_gdf))
         (\<lambda>highway_emissions_gdf.
     create_shapefile E highway_emissions_gdf (''EPSG:'' @ str_int (epsg a))
       (base_directory a) (highways_shapefile_filename a))))))"

text \<open>
  The resolution of the bounding box, written twice in the source with the same text
  (in the map branch and in the GRAL branch): the corner (west, north) and the corner
  (east, south) are converted from EPSG 4326 to the target system, and the dictionary
  \<^verbatim>\<open>location_epsg_new\<close> is built from the four coordinates that come back.
\<close>

definition location_epsg_new ::
    "('n, 'o, 'w) env \<Rightarrow> 'n args \<Rightarrow> ('n, 'o, 'w, 'n location) py" where
  "location_epsg_new E a =
     bnd (call (Convert_coordinates (west (location a)) (north (location a)) 4326 (epsg a))
               (convert_coordinates E (west (location a)) (north (location a)) 4326 (epsg a)))
         (\<lambda>(west_point_epsg_new_x, north_point_epsg_new_y).
     bnd (call (Convert_coordinates (east (location a)) (south (location a)) 4326 (epsg a))
               (convert_coordinates E (east (location a)) (south (location a)) 4326 (epsg a)))
         (\<lambda>(east_point_epsg_new_x, south_point_epsg_new_y).
     ret \<lparr>north = north_point_epsg_new_y, south = south_point_epsg_new_y,
          east = east_point_epsg_new_x, west = west_point_epsg_new_x\<rparr>))"

text \<open>The branch for the process modes \<^verbatim>\<open>all\<close> and \<^verbatim>\<open>map\<close>.\<close>

definition map_branch :: "('n, 'o, 'w) env \<Rightarrow> 'n args \<Rightarrow> ('n, 'o, 'w, unit) py" where
  "map_branch E a =
     bnd (location_epsg_new E a) (\<lambda>bbox.
     call (Create_georeferenced_map bbox (epsg a) (map_filename a))
          (create_georeferenced_map E bbox (epsg a) (map_filename a)))"

text \<open>The branch for the process mode \<^verbatim>\<open>gral\<close>: the files of the GRAL executable.\<close>

definition pollutant :: string where
  "pollutant = ''NOx''"

definition horizontal_layers :: "int list" where
  "horizontal_layers = [3, 6, 9, 12, 15]"

definition mean_latitude :: "'n::{plus,inverse,numeral} args \<Rightarrow> 'n" where
  "mean_latitude a = (north (location a) + south (location a)) / 2"

definition gral_branch ::
    "('n::{plus,inverse,numeral}, 'o, 'w) env \<Rightarrow> 'n args \<Rightarrow> ('n, 'o, 'w, unit) py" where
  "gral_branch E a =
     bnd (location_epsg_new E a) (\<lambda>bbox.
     bnd (call (Create_greb_file bbox (int (length horizontal_layers)))
               (create_greb_file E bbox (int (length horizontal_layers)))) (\<lambda>_.
     bnd (call (Create_in_dat_file 500 3600 (mean_latitude a) horizontal_layers)
               (create_in_dat_file E 500 3600 (mean_latitude a) horizontal_layers)) (\<lambda>_.
     bnd (call Create_meteogpt_file (create_meteogpt_file E)) (\<lambda>_.
     bnd (call (Create_other_txt_requiered_files pollutant 12)
               (create_other_txt_requiered_files E pollutant 12)) (\<lambda>_.
     bnd (call Create_buildings_file (create_buildings_file E)) (\<lambda>_.
     bnd (call (Create_line_emissions_file pollutant)
               (create_line_emissions_file E pollutant)) (\<lambda>_.
     call Create_other_optional_files (create_other_optional_files E))))))))"

text \<open>The five module objects that \<^verbatim>\<open>main\<close> creates before it looks at the mode.\<close>

definition create_modules ::
    "('n, 'o, 'w) env \<Rightarrow> 'n args \<Rightarrow> ('n, 'o, 'w, unit) py" where
  "create_modules E a =
     bnd (call (New_Buildings (location a)) (new_Buildings E (location a))) (\<lambda>_.
     bnd (call (New_Weather (base_directory a)) (new_Weather E (base_directory a))) (\<lambda>_.
     bnd (call (New_Highways (location a)) (new_Highways E (location a))) (\<lambda>_.
     bnd (call (New_Maps (base_directory a)) (new_Maps E (base_directory a))) (\<lambda>_.
     call (New_GRAL (base_directory a) (met_file a)
             (buildings_shapefile_filename a) (highways_shapefile_filename a))
          (new_GRAL E (base_directory a) (met_file a)
             (buildings_shapefile_filename a) (highways_shapefile_filename a))))))"

text \<open>The body of the \<^verbatim>\<open>try\<close> statement of \<^verbatim>\<open>main\<close>.\<close>

definition main_body ::
    "('n::{plus,inverse,numeral}, 'o, 'w) env \<Rightarrow> 'n args \<Rightarrow> ('n, 'o, 'w, unit) py" where
  "main_body E a =
     bnd (create_modules E a) (\<lambda>_.
     bnd (when_py (process a \<in> set [''all'', ''buildings'']) (buildings_branch E a)) (\<lambda>_.
     bnd (when_py (process a \<in> set [''all'', ''weather'']) (weather_branch E a)) (\<lambda>_.
     bnd (when_py (process a \<in> set [''all'', ''highway'']) (highway_branch E a)) (\<lambda>_.
     bnd (when_py (process a \<in> set [''all'', ''map'']) (map_branch E a)) (\<lambda>_.
     when_py (process a \<in> set [''gral'']) (gral_branch E a))))))"

definition main ::
    "('n::{plus,inverse,numeral}, 'o, 'w) env \<Rightarrow> 'n args \<Rightarrow> ('n, 'o, 'w, unit) py" where
  "main E a =
     try_except (main_body E a) (\<lambda>e. print_py (''An error occurred: '' @ exn_str e))"

text \<open>A run of \<^verbatim>\<open>main\<close> from a given world, with an empty trace.\<close>

definition start :: "'w \<Rightarrow> ('n, 'o, 'w) state" where
  "start w = \<lparr>world = w, trace = []\<rparr>"

definition run_main ::
    "('n::{plus,inverse,numeral}, 'o, 'w) env \<Rightarrow> 'n args \<Rightarrow> 'w \<Rightarrow> ('n, 'o, 'w) state" where
  "run_main E a w = snd (main E a (start w))"

subsection \<open>The emissions join\<close>

text \<open>
  \<^verbatim>\<open>main\<close> hands the emissions table and the highway table to
  \<^verbatim>\<open>combine_sumo_emissions_and_highway_data\<close> of the highway module, whose code is not
  part of \<^verbatim>\<open>main.py\<close>. The tables and the join below follow the specification.
\<close>

record 'g road_segment =
  osmid :: int
  geometry :: 'g

record emission_record =
  segment_identifier :: int
  pollutant_label :: string
  timestamp :: nat
  amount :: int

record 'g joined_emission_feature =
  feature_segment :: "'g road_segment"
  feature_record :: emission_record

text \<open>
  Modelled from the spec: the body of \<^verbatim>\<open>combine_sumo_emissions_and_highway_data\<close>
  (module \<^verbatim>\<open>line_emission_sources.highway_data_processor\<close>) is missing. The spec gives
  \<^verbatim>\<open>join(emission_records, road_segments)\<close> as an equi-join on the identifier that keeps
  only the identifiers present in both inputs and yields one row for each pair of a
  segment and an emission record of that segment, without aggregation.
\<close>

definition join ::
    "emission_record list \<Rightarrow> 'g road_segment list \<Rightarrow> 'g joined_emission_feature list" where
  "join emission_records road_segments =
     concat (map (\<lambda>sg.
       map (\<lambda>e. \<lparr>feature_segment = sg, feature_record = e\<rparr>)
         (filter (\<lambda>e. segment_identifier e = osmid sg) emission_records))
       road_segments)"

definition feature_identifier :: "'g joined_emission_feature \<Rightarrow> int" where
  "feature_identifier f = osmid (feature_segment f)"

subsection \<open>Reading a trace\<close>

text \<open>The stages of the simulator file sequencer, named as in the specification.\<close>

datatype stage =
  Meteogpt | GREB | InDat | OtherRequiredFiles | Buildings | LineEmissions | OptionalFiles

fun stage_of :: "('n, 'o) call \<Rightarrow> stage option" where
  "stage_of (Create_greb_file bbox k) = Some GREB"
| "stage_of (Create_in_dat_file p t l hs) = Some InDat"
| "stage_of Create_meteogpt_file = Some Meteogpt"
| "stage_of (Create_other_txt_requiered_files p n) = Some OtherRequiredFiles"
| "stage_of Create_buildings_file = Some Buildings"
| "stage_of (Create_line_emissions_file p) = Some LineEmissions"
| "stage_of Create_other_optional_files = Some OptionalFiles"
| "stage_of _ = None"

fun entry_stage :: "('n, 'o, 'w) entry \<Rightarrow> stage option" where
  "entry_stage (Call w c r w') = stage_of c"
| "entry_stage (Print msg) = None"

text \<open>The stages whose file writer was called, in the order of the calls.\<close>

fun stages :: "('n, 'o, 'w) entry list \<Rightarrow> stage list" where
  "stages [] = []"
| "stages (e # es) = (case entry_stage e of None \<Rightarrow> stages es | Some st \<Rightarrow> st # stages es)"

text \<open>The order in which the GRAL branch of \<^verbatim>\<open>main\<close> calls the file writers.\<close>

definition gral_stage_order :: "stage list" where
  "gral_stage_order =
     [GREB, InDat, Meteogpt, OtherRequiredFiles, Buildings, LineEmissions, OptionalFiles]"

text \<open>The order of the stages as the specification words it.\<close>

definition spec_stage_order :: "stage list" where
  "spec_stage_order =
     [Meteogpt, GREB, InDat, OtherRequiredFiles, Buildings, LineEmissions, OptionalFiles]"

text \<open>The calls that \<^verbatim>\<open>create_shapefile\<close> makes inside its own \<^verbatim>\<open>try\<close> statement.\<close>

fun shapefile_call :: "('n, 'o) call \<Rightarrow> bool" where
  "shapefile_call (Project_gdf g c) = True"
| "shapefile_call (Set_crs g c) = True"
| "shapefile_call (To_file g p) = True"
| "shapefile_call _ = False"

text \<open>
  The calls that occur only in the buildings, weather, highway and map branches, and
  the entries of a trace that these four branches alone produce.
\<close>

fun branch_call :: "('n, 'o) call \<Rightarrow> bool" where
  "branch_call Process_buildings = True"
| "branch_call (Process_weather_data f) = True"
| "branch_call (Create_met_file df) = True"
| "branch_call (Write_to_files df f) = True"
| "branch_call (ReadNet f) = True"
| "branch_call (Process_highway_data n) = True"
| "branch_call (Osmid_tolist g) = True"
| "branch_call (Process_sumo_edges_emissions_file f n ids) = True"
| "branch_call (Combine_sumo_emissions_and_highway_data e h) = True"
| "branch_call (Create_georeferenced_map bbox e f) = True"
| "branch_call c = shapefile_call c"

fun branch_entry :: "('n, 'o, 'w) entry \<Rightarrow> bool" where
  "branch_entry (Call w c r w') = branch_call c"
| "branch_entry (Print msg) =
     (msg = ''Creating shapefile...'' \<or> prefix ''Failed to create shapefile: '' msg)"

text \<open>
  Two properties of a program that are used to reason about a whole run from its parts:
  every entry it adds to the trace satisfies \<open>Q\<close>; and it is fail-fast, that is, the
  only call that raised without being handled is the last thing it did. A raise is
  handled only inside \<^verbatim>\<open>create_shapefile\<close>.
\<close>

definition adds_only ::
    "('n, 'o, 'w, 'a) py \<Rightarrow> (('n, 'o, 'w) entry \<Rightarrow> bool) \<Rightarrow> bool" where
  "adds_only m Q \<longleftrightarrow>
     (\<forall>s r s'. m s = (r, s') \<longrightarrow> (\<exists>ext. trace s' = trace s @ ext \<and> list_all Q ext))"

fun quiet :: "('n, 'o, 'w) entry \<Rightarrow> bool" where
  "quiet (Call w c None w') = True"
| "quiet (Call w c (Some e) w') = shapefile_call c"
| "quiet (Print msg) = True"

definition fail_fast :: "('n, 'o, 'w, 'a) py \<Rightarrow> bool" where
  "fail_fast m \<longleftrightarrow>
     (\<forall>s r s'. m s = (r, s') \<longrightarrow>
        (\<exists>ext. trace s' = trace s @ ext \<and>
           (case r of
              Inr x \<Rightarrow> list_all quiet ext
            | Inl e \<Rightarrow>
                \<exists>pre c w0. ext = pre @ [Call w0 c (Some e) (world s')] \<and> list_all quiet pre)))"

fun in_dat_latitude_is :: "'n \<Rightarrow> ('n, 'o, 'w) entry \<Rightarrow> bool" where
  "in_dat_latitude_is x (Call w (Create_in_dat_file p t l hs) r w') = (l = x)"
| "in_dat_latitude_is x _ = True"

subsection \<open>Fixtures\<close>

text \<open>
  A bounding box and arguments as in the end-to-end scenario of the specification, and
  collaborators that all succeed: the world is the list of the files written so far, an
  opaque object is its name, and the projection scales both coordinates.
\<close>

definition example_args :: "real args" where
  "example_args =
     \<lparr>north = 101 / 10, south = 10, east = 201 / 10, west = 20,
      base_directory = ''out'', met_file = ''weather.met'',
      buildings_shapefile_filename = ''buildings.shp'',
      highways_shapefile_filename = ''highways.shp'',
      process = ''gral'', epsg = 32633,
      input_weather_file = ''weather.csv'', output_weather_file = ''w'',
      weather_day = Some ''2024-01-02'', weather_hour = Some 14,
      net_file = ''net.xml'', emissions_file = ''emissions.xml'', map_filename = ''map.tif''\<rparr>"

definition example_series :: "string row list" where
  "example_series =
     [\<lparr>fecha = ''2024-01-01'', hora = 14, cols = ''a''\<rparr>,
      \<lparr>fecha = ''2024-01-02'', hora = 13, cols = ''b''\<rparr>,
      \<lparr>fecha = ''2024-01-02'', hora = 14, cols = ''c''\<rparr>]"

definition ok_env :: "(real, string, string list) env" where
  "ok_env =
     \<lparr>new_Buildings = (\<lambda>l w. (Inr (), w)),
      new_Weather = (\<lambda>d w. (Inr (), w)),
      new_Highways = (\<lambda>l w. (Inr (), w)),
      new_Maps = (\<lambda>d w. (Inr (), w)),
      new_GRAL = (\<lambda>d m b h w. (Inr (), w)),
      process_buildings = (\<lambda>w. (Inr ''buildings_gdf'', w)),
      project_gdf = (\<lambda>g c w. (Inr g, w)),
      set_crs = (\<lambda>g c w. (Inr g, w)),
      to_file = (\<lambda>g p w. (Inr (), w @ [p])),
      process_weather_data = (\<lambda>f w. (Inr ([], example_series), w)),
      create_met_file = (\<lambda>df w. (Inr (), w)),
      write_to_files = (\<lambda>df f w. (Inr (), w @ [f])),
      readNet = (\<lambda>f w. (Inr ''net'', w)),
      process_highway_data = (\<lambda>n w. (Inr ''highway_gdf'', w)),
      osmid_tolist = (\<lambda>g w. (Inr ''osmids'', w)),
      process_sumo_edges_emissions_file = (\<lambda>f n ids w. (Inr ''sumo_emissions_df'', w)),
      combine_sumo_emissions_and_highway_data = (\<lambda>e h w. (Inr ''highway_emissions_gdf'', w)),
      convert_coordinates = (\<lambda>x y src dst w. (Inr (1000 * x, 1000 * y), w)),
      create_georeferenced_map = (\<lambda>bbox e f w. (Inr (), w @ [f])),
      create_greb_file = (\<lambda>bbox k w. (Inr (), w @ [''greb''])),
      create_in_dat_file = (\<lambda>p t l hs w. (Inr (), w @ [''in.dat''])),
      create_meteogpt_file = (\<lambda>w. (Inr (), w @ [''meteogpt''])),
      create_other_txt_requiered_files = (\<lambda>p n w. (Inr (), w @ [''other''])),
      create_buildings_file = (\<lambda>w. (Inr (), w @ [''buildings''])),
      create_line_emissions_file = (\<lambda>p w. (Inr (), w @ [''line''])),
      create_other_optional_files = (\<lambda>w. (Inr (), w @ [''optional'']))\<rparr>"

text \<open>A projection into a system whose second axis points south.\<close>

definition south_up_env :: "(real, string, string list) env" where
  "south_up_env = ok_env\<lparr>convert_coordinates := (\<lambda>x y src dst w. (Inr (1000 * x, - 1000 * y), w))\<rparr>"

text \<open>Collaborators of which one fails: the shapefile driver, the meteogpt writer.\<close>

definition no_disk_env :: "(real, string, string list) env" where
  "no_disk_env = ok_env\<lparr>to_file := (\<lambda>g p w. (Inl (Exception ''OSError'' ''disk full''), w))\<rparr>"

definition no_met_env :: "(real, string, string list) env" where
  "no_met_env =
     ok_env\<lparr>create_meteogpt_file := (\<lambda>w. (Inl (Exception ''FileNotFoundError'' ''no met file''), w))\<rparr>"

text \<open>The state in which the resolution of the example bounding box ends.\<close>

definition example_bbox_state :: "(real, string, string list) state" where
  "example_bbox_state =
     \<lparr>world = [],
      trace = [Call [] (Convert_coordinates 20 10.1 4326 32633) None [],
               Call [] (Convert_coordinates 20.1 10 4326 32633) None []]\<rparr>"

text \<open>Collaborators whose coordinate conversion fails.\<close>

definition no_proj_env :: "(real, string, string list) env" where
  "no_proj_env =
     ok_env\<lparr>convert_coordinates :=
       (\<lambda>x y src dst w. (Inl (Exception ''ProjectionError'' ''unknown EPSG code''), w))\<rparr>"

text \<open>
  The trace of the GRAL run of the example up to the call of the meteogpt writer, and
  the entries that \<^verbatim>\<open>create_shapefile\<close> adds when the shapefile driver fails.
\<close>

definition example_gral_prefix :: "(real, string, string list) entry list" where
  "example_gral_prefix =
     [Call [] (New_Buildings \<lparr>north = 10.1, south = 10, east = 20.1, west = 20\<rparr>) None [],
      Call [] (New_Weather ''out'') None [],
      Call [] (New_Highways \<lparr>north = 10.1, south = 10, east = 20.1, west = 20\<rparr>) None [],
      Call [] (New_Maps ''out'') None [],
      Call [] (New_GRAL ''out'' ''weather.met'' ''buildings.shp'' ''highways.shp'') None [],
      Call [] (Convert_coordinates 20 10.1 4326 32633) None [],
      Call [] (Convert_coordinates 20.1 10 4326 32633) None [],
      Call [] (Create_greb_file \<lparr>north = 10100, south = 10000, east = 20100, west = 20000\<rparr> 5)
        None [''greb''],
      Call [''greb''] (Create_in_dat_file 500 3600 10.05 [3, 6, 9, 12, 15]) None
        [''greb'', ''in.dat'']]"

definition no_met_error :: exn where
  "no_met_error = Exception ''FileNotFoundError'' ''no met file''"

definition no_met_state :: "(real, string, string list) state" where
  "no_met_state =
     \<lparr>world = [''greb'', ''in.dat''],
      trace = example_gral_prefix @
        [Call [''greb'', ''in.dat''] Create_meteogpt_file (Some no_met_error)
           [''greb'', ''in.dat'']]\<rparr>"

definition no_disk_entries :: "(real, string, string list) entry list" where
  "no_disk_entries =
     [Print ''Creating shapefile...'',
      Call [] (Project_gdf ''buildings_gdf'' ''EPSG:32633'') None [],
      Call [] (Set_crs ''buildings_gdf'' ''EPSG:32633'') None [],
      Call [] (To_file ''buildings_gdf'' ''out/buildings.shp'')
        (Some (Exception ''OSError'' ''disk full'')) [],
      Print ''Failed to create shapefile: disk full'']"

text \<open>The same arguments with the process mode \<^verbatim>\<open>all\<close>.\<close>

definition all_args :: "real args" where
  "all_args = example_args\<lparr>process := ''all''\<rparr>"

definition example_emissions :: "emission_record list" where
  "example_emissions =
     [\<lparr>segment_identifier = 1, pollutant_label = ''NOx'', timestamp = 0, amount = 5\<rparr>,
      \<lparr>segment_identifier = 2, pollutant_label = ''NOx'', timestamp = 0, amount = 7\<rparr>,
      \<lparr>segment_identifier = 3, pollutant_label = ''NOx'', timestamp = 0, amount = 9\<rparr>]"

definition example_segments :: "string road_segment list" where
  "example_segments =
     [\<lparr>osmid = 2, geometry = ''b''\<rparr>, \<lparr>osmid = 3, geometry = ''c''\<rparr>,
      \<lparr>osmid = 4, geometry = ''d''\<rparr>]"

section \<open>Lemmas\<close>

subsection \<open>Laws of the exception and state passing style\<close>

lemma bnd_bnd: "bnd (bnd m f) g = bnd m (\<lambda>x. bnd (f x) g)"
  by (rule ext) (simp add: bnd_def split: prod.splits sum.splits)

lemma ret_bnd: "bnd (ret x) f = f x"
  by (rule ext) (simp add: bnd_def ret_def)

lemma bnd_ret: "bnd m ret = m"
  by (rule ext) (simp add: bnd_def ret_def split: prod.splits sum.splits)

lemma bnd_prod: "bnd (case p of (x, y) \<Rightarrow> f x y) g = (case p of (x, y) \<Rightarrow> bnd (f x y) g)"
  by (cases p) simp

lemma call_eq:
  "call c f s =
     (case f (world s) of
        (Inl e, w') \<Rightarrow> (Inl e, \<lparr>world = w', trace = trace s @ [Call (world s) c (Some e) w']\<rparr>)
      | (Inr x, w') \<Rightarrow> (Inr x, \<lparr>world = w', trace = trace s @ [Call (world s) c None w']\<rparr>))"
  by (simp add: call_def outcome_def split: prod.splits sum.splits)

lemma bnd_call:
  "bnd (call c f) g s =
     (case f (world s) of
        (Inl e, w') \<Rightarrow> (Inl e, \<lparr>world = w', trace = trace s @ [Call (world s) c (Some e) w']\<rparr>)
      | (Inr x, w') \<Rightarrow> g x \<lparr>world = w', trace = trace s @ [Call (world s) c None w']\<rparr>)"
  by (simp add: bnd_def call_def outcome_def split: prod.splits sum.splits)

lemma bnd_print:
  "bnd (print_py msg) g s = g () (s\<lparr>trace := trace s @ [Print msg]\<rparr>)"
  by (simp add: bnd_def print_py_def)

lemma bnd_try:
  "bnd (try_except m h) g s =
     (case m s of (Inl e, s') \<Rightarrow> bnd (h e) g s' | (Inr x, s') \<Rightarrow> g x s')"
  by (simp add: bnd_def try_except_def split: prod.splits sum.splits)

lemmas exec_simps = bnd_bnd ret_bnd bnd_ret bnd_prod bnd_call bnd_print bnd_try call_eq

lemmas run_defs = run_main_def main_def main_body_def create_modules_def buildings_branch_def
  weather_branch_def highway_branch_def map_branch_def gral_branch_def location_epsg_new_def
  create_shapefile_def start_def location_def mean_latitude_def pollutant_def
  horizontal_layers_def day_met_file_df_def hour_met_file_df_def str_int_def str_nat.simps
  when_py_def try_except_def print_py_def ret_def

subsection \<open>Entries added by a program\<close>

lemma adds_onlyD:
  "adds_only m Q \<Longrightarrow> m s = (r, s') \<Longrightarrow> \<exists>ext. trace s' = trace s @ ext \<and> list_all Q ext"
  unfolding adds_only_def by blast

lemma adds_only_ret: "adds_only (ret x) Q"
  by (simp add: adds_only_def ret_def)

lemma adds_only_call: "(\<And>w r w'. Q (Call w c r w')) \<Longrightarrow> adds_only (call c f) Q"
  by (auto simp: adds_only_def call_def split: prod.splits)

lemma adds_only_print: "Q (Print msg) \<Longrightarrow> adds_only (print_py msg) Q"
  by (auto simp: adds_only_def print_py_def)

lemma adds_only_bnd:
  assumes "adds_only m Q" and "\<And>x. adds_only (f x) Q"
  shows "adds_only (bnd m f) Q"
  unfolding adds_only_def
proof (intro allI impI)
  fix s r s' assume run: "bnd m f s = (r, s')"
  obtain r1 s1 where m: "m s = (r1, s1)" by (cases "m s")
  from adds_onlyD [OF assms(1) m] obtain e1 where e1: "trace s1 = trace s @ e1" "list_all Q e1"
    by blast
  show "\<exists>ext. trace s' = trace s @ ext \<and> list_all Q ext"
  proof (cases r1)
    case (Inl e)
    with run m have "s' = s1" by (simp add: bnd_def)
    with e1 show ?thesis by auto
  next
    case (Inr x)
    with run m have "f x s1 = (r, s')" by (simp add: bnd_def)
    from adds_onlyD [OF assms(2) this] obtain e2 where "trace s' = trace s1 @ e2" "list_all Q e2"
      by blast
    with e1 show ?thesis by auto
  qed
qed

lemma adds_only_try:
  assumes "adds_only m Q" and "\<And>e. adds_only (h e) Q"
  shows "adds_only (try_except m h) Q"
  unfolding adds_only_def
proof (intro allI impI)
  fix s r s' assume run: "try_except m h s = (r, s')"
  obtain r1 s1 where m: "m s = (r1, s1)" by (cases "m s")
  from adds_onlyD [OF assms(1) m] obtain e1 where e1: "trace s1 = trace s @ e1" "list_all Q e1"
    by blast
  show "\<exists>ext. trace s' = trace s @ ext \<and> list_all Q ext"
  proof (cases r1)
    case (Inr x)
    with run m have "s' = s1" by (simp add: try_except_def)
    with e1 show ?thesis by auto
  next
    case (Inl e)
    with run m have "h e s1 = (r, s')" by (simp add: try_except_def)
    from adds_onlyD [OF assms(2) this] obtain e2 where "trace s' = trace s1 @ e2" "list_all Q e2"
      by blast
    with e1 show ?thesis by auto
  qed
qed

lemma adds_only_when: "(b \<Longrightarrow> adds_only m Q) \<Longrightarrow> adds_only (when_py b m) Q"
  by (simp add: when_py_def adds_only_ret)

lemma adds_only_prod: "(\<And>x y. adds_only (f x y) Q) \<Longrightarrow> adds_only (case p of (x, y) \<Rightarrow> f x y) Q"
  by (cases p) simp

lemma adds_only_option:
  "adds_only m Q \<Longrightarrow> (\<And>x. adds_only (f x) Q) \<Longrightarrow> adds_only (case v of None \<Rightarrow> m | Some x \<Rightarrow> f x) Q"
  by (cases v) simp_all

lemmas adds_only_intros = adds_only_ret adds_only_call adds_only_print adds_only_bnd
  adds_only_try adds_only_when adds_only_prod adds_only_option

lemma adds_only_run:
  assumes "adds_only (main E a) Q"
  shows "list_all Q (trace (run_main E a w))"
proof -
  obtain r s' where m: "main E a (start w) = (r, s')" by (cases "main E a (start w)")
  from adds_onlyD [OF assms m] obtain ext where "trace s' = trace (start w) @ ext" "list_all Q ext"
    by blast
  then have "list_all Q (trace s')" by (simp add: start_def)
  then show ?thesis by (simp add: run_main_def m)
qed

lemmas body_defs = main_def main_body_def create_modules_def buildings_branch_def
  weather_branch_def highway_branch_def map_branch_def gral_branch_def location_epsg_new_def
  create_shapefile_def

subsection \<open>Runs of \<^verbatim>\<open>main\<close>\<close>

lemma run_main_trace:
  assumes "main_body E a (start w) = (r, s')"
  shows "run_main E a w =
           (case r of Inl e \<Rightarrow> s'\<lparr>trace := trace s' @ [Print (''An error occurred: '' @ exn_str e)]\<rparr>
                    | Inr u \<Rightarrow> s')"
  using assms by (simp add: run_main_def main_def try_except_def print_py_def split: sum.splits)

lemma stages_append: "stages (xs @ ys) = stages xs @ stages ys"
  by (induction xs) (auto split: option.splits)

lemma stages_none: "list_all (\<lambda>e. entry_stage e = None) xs \<Longrightarrow> stages xs = []"
  by (induction xs) auto

lemma filter_none: "list_all (\<lambda>e. \<not> P e) xs \<Longrightarrow> filter P xs = []"
  by (induction xs) auto

lemma main_body_gral:
  "process a = ''gral'' \<Longrightarrow> main_body E a = bnd (create_modules E a) (\<lambda>u. gral_branch E a)"
  by (simp add: main_body_def when_py_def ret_bnd)

lemma main_body_all:
  "process a = ''all'' \<Longrightarrow>
     main_body E a =
       bnd (create_modules E a) (\<lambda>u. bnd (buildings_branch E a) (\<lambda>u.
       bnd (weather_branch E a) (\<lambda>u. bnd (highway_branch E a) (\<lambda>u. map_branch E a))))"
  by (simp add: main_body_def when_py_def bnd_ret)

lemma main_no_stage:
  "process a \<noteq> ''gral'' \<Longrightarrow> adds_only (main E a) (\<lambda>e. entry_stage e = None)"
  unfolding main_def main_body_def create_modules_def buildings_branch_def
    weather_branch_def highway_branch_def map_branch_def location_epsg_new_def
    create_shapefile_def
  by (intro adds_only_intros) simp_all

lemma main_gral_no_branch:
  "process a = ''gral'' \<Longrightarrow> adds_only (main E a) (\<lambda>e. \<not> branch_entry e)"
  unfolding main_def main_body_def create_modules_def gral_branch_def location_epsg_new_def
  by (intro adds_only_intros) simp_all

lemma create_modules_no_stage: "adds_only (create_modules E a) (\<lambda>e. entry_stage e = None)"
  unfolding create_modules_def by (intro adds_only_intros) simp_all

subsection \<open>Fail-fast programs\<close>

lemma fail_fastD:
  "fail_fast m \<Longrightarrow> m s = (r, s') \<Longrightarrow>
     \<exists>ext. trace s' = trace s @ ext \<and>
       (case r of Inr x \<Rightarrow> list_all quiet ext
        | Inl e \<Rightarrow> \<exists>pre c w0. ext = pre @ [Call w0 c (Some e) (world s')] \<and> list_all quiet pre)"
  unfolding fail_fast_def by blast

lemma fail_fast_ret: "fail_fast (ret x)"
  by (simp add: fail_fast_def ret_def)

lemma fail_fast_call: "fail_fast (call c f)"
  by (auto simp: fail_fast_def call_eq split: prod.splits sum.splits)

lemma fail_fast_bnd:
  assumes "fail_fast m" and "\<And>x. fail_fast (f x)"
  shows "fail_fast (bnd m f)"
  unfolding fail_fast_def
proof (intro allI impI)
  fix s r s' assume run: "bnd m f s = (r, s')"
  obtain r1 s1 where m: "m s = (r1, s1)" by (cases "m s")
  from fail_fastD [OF assms(1) m] obtain e1 where e1: "trace s1 = trace s @ e1"
    and c1: "case r1 of Inr x \<Rightarrow> list_all quiet e1
        | Inl e \<Rightarrow> \<exists>pre c w0. e1 = pre @ [Call w0 c (Some e) (world s1)] \<and> list_all quiet pre"
    by blast
  show "\<exists>ext. trace s' = trace s @ ext \<and>
       (case r of Inr x \<Rightarrow> list_all quiet ext
        | Inl e \<Rightarrow> \<exists>pre c w0. ext = pre @ [Call w0 c (Some e) (world s')] \<and> list_all quiet pre)"
  proof (cases r1)
    case (Inl e)
    with run m have "s' = s1" "r = Inl e" by (simp_all add: bnd_def)
    with e1 c1 Inl show ?thesis by auto
  next
    case (Inr x)
    with run m have "f x s1 = (r, s')" by (simp add: bnd_def)
    from fail_fastD [OF assms(2) this] obtain e2 where e2: "trace s' = trace s1 @ e2"
      and c2: "case r of Inr x \<Rightarrow> list_all quiet e2
        | Inl e \<Rightarrow> \<exists>pre c w0. e2 = pre @ [Call w0 c (Some e) (world s')] \<and> list_all quiet pre"
      by blast
    from Inr c1 have q1: "list_all quiet e1" by simp
    show ?thesis
    proof (cases r)
      case (Inr y)
      with e1 e2 c2 q1 show ?thesis by auto
    next
      case (Inl e)
      with c2 obtain pre c w0 where "e2 = pre @ [Call w0 c (Some e) (world s')]" "list_all quiet pre"
        by auto
      with e1 e2 q1 have "trace s' = trace s @ (e1 @ pre) @ [Call w0 c (Some e) (world s')]"
        "list_all quiet (e1 @ pre)" by simp_all
      with Inl show ?thesis by (simp del: append_assoc)
    qed
  qed
qed

lemma fail_fast_when: "(b \<Longrightarrow> fail_fast m) \<Longrightarrow> fail_fast (when_py b m)"
  by (simp add: when_py_def fail_fast_ret)

lemma fail_fast_prod: "(\<And>x y. fail_fast (f x y)) \<Longrightarrow> fail_fast (case p of (x, y) \<Rightarrow> f x y)"
  by (cases p) simp

lemma fail_fast_option:
  "fail_fast m \<Longrightarrow> (\<And>x. fail_fast (f x)) \<Longrightarrow> fail_fast (case v of None \<Rightarrow> m | Some x \<Rightarrow> f x)"
  by (cases v) simp_all

lemma fail_fast_create_shapefile: "fail_fast (create_shapefile E g cs d f)"
  by (auto simp: fail_fast_def create_shapefile_def try_except_def print_py_def exec_simps
      split: prod.splits sum.splits)

lemmas fail_fast_intros = fail_fast_ret fail_fast_call fail_fast_bnd fail_fast_when
  fail_fast_prod fail_fast_option fail_fast_create_shapefile

lemma fail_fast_main_body: "fail_fast (main_body E a)"
  unfolding main_body_def create_modules_def buildings_branch_def
    weather_branch_def highway_branch_def map_branch_def gral_branch_def location_epsg_new_def
  by (intro fail_fast_intros)


lemma raise_is_last:
  assumes eq: "pre @ x # post = pre' @ [y, z]" and "x \<notin> set pre'" and "x \<noteq> z"
  shows "pre = pre' \<and> x = y \<and> post = [z]"
proof -
  from eq have "x \<in> set (pre' @ [y, z])" by (metis in_set_conv_decomp)
  with assms(2,3) have xy: "x = y" by auto
  from eq xy have e: "pre @ x # post = pre' @ x # [z]" by simp
  have "pre = pre'"
  proof (rule ccontr)
    assume ne: "pre \<noteq> pre'"
    from e [unfolded append_eq_append_conv2] obtain us where
      "pre = pre' @ us \<and> us @ x # post = x # [z] \<or> pre @ us = pre' \<and> x # post = us @ x # [z]"
      by blast
    then show False
    proof
      assume a: "pre = pre' @ us \<and> us @ x # post = x # [z]"
      with ne have "us \<noteq> []" by auto
      with a obtain l where "l @ x # post = [z]" by (cases us) auto
      then have "x \<in> set [z]" by (metis in_set_conv_decomp)
      with assms(3) show False by simp
    next
      assume a: "pre @ us = pre' \<and> x # post = us @ x # [z]"
      with ne have "us \<noteq> []" by auto
      with a have "x \<in> set us" by (cases us) auto
      with a assms(2) show False by auto
    qed
  qed
  with e xy show ?thesis by simp
qed

section \<open>Claims\<close>

subsection \<open>The weather slices\<close>

text \<open>
  C4. Slicing a weather series by day and the result by hour gives exactly the rows of
  the series whose date and hour both match, as one filter on the conjunction would:
  the rows are those of the series, unchanged and in their order, and none is added.
\<close>

theorem slice_day_then_hour:
  "hour_met_file_df (day_met_file_df series day) hour
     = filter (\<lambda>r. fecha r = day \<and> hora r = hour) series
   \<and> subseq (hour_met_file_df (day_met_file_df series day) hour) series"
  by (simp add: hour_met_file_df_def day_met_file_df_def conj_commute)

subsection \<open>The emissions join\<close>

lemma join_member:
  "f \<in> set (join es sgs) \<longleftrightarrow>
     (\<exists>sg \<in> set sgs. \<exists>e \<in> set es.
        segment_identifier e = osmid sg \<and> f = \<lparr>feature_segment = sg, feature_record = e\<rparr>)"
  by (auto simp: join_def)

lemma set_join_identifiers:
  "set (map feature_identifier (join es sgs))
     = set (map segment_identifier es) \<inter> set (map osmid sgs)"
proof (intro set_eqI iffI)
  fix i assume "i \<in> set (map feature_identifier (join es sgs))"
  then obtain f where "f \<in> set (join es sgs)" and i: "i = feature_identifier f"
    by auto
  then obtain sg e where "sg \<in> set sgs" "e \<in> set es" "segment_identifier e = osmid sg"
    and "f = \<lparr>feature_segment = sg, feature_record = e\<rparr>"
    unfolding join_member by blast
  with i show "i \<in> set (map segment_identifier es) \<inter> set (map osmid sgs)"
    by (force simp: feature_identifier_def)
next
  fix i assume "i \<in> set (map segment_identifier es) \<inter> set (map osmid sgs)"
  then obtain e sg where m: "e \<in> set es" "sg \<in> set sgs"
    and eq: "segment_identifier e = i" "osmid sg = i"
    by auto
  then have "\<lparr>feature_segment = sg, feature_record = e\<rparr> \<in> set (join es sgs)"
    unfolding join_member by auto
  then have "feature_identifier \<lparr>feature_segment = sg, feature_record = e\<rparr>
      \<in> set (map feature_identifier (join es sgs))"
    by (simp only: set_map) (rule imageI)
  with eq show "i \<in> set (map feature_identifier (join es sgs))"
    by (simp add: feature_identifier_def)
qed

text \<open>
  C5. The join is strictly inner on the segment identifier: an identifier occurs in the
  joined output if and only if it occurs in the emissions table and in the road
  segments; emissions with the identifiers 1, 2, 3 joined with segments with the
  identifiers 2, 3, 4 give output with the identifiers 2 and 3 only.
\<close>

theorem join_inner:
  "(i \<in> set (map feature_identifier (join es sgs))
      \<longleftrightarrow> i \<in> set (map segment_identifier es) \<and> i \<in> set (map osmid sgs))
   \<and> (set (map segment_identifier es) = {1, 2, 3} \<and> set (map osmid sgs) = {2, 3, 4}
      \<longrightarrow> set (map feature_identifier (join es sgs)) = {2, 3})"
proof -
  have "{1, 2, 3} \<inter> {2, 3, 4} = {2, 3 :: int}" by auto
  then show ?thesis by (simp only: set_join_identifiers Int_iff) simp
qed

theorem join_inner_witness:
  "set (map segment_identifier example_emissions) = {1, 2, 3}
   \<and> set (map osmid example_segments) = {2, 3, 4}
   \<and> map feature_identifier (join example_emissions example_segments) = [2, 3]
   \<and> set (map feature_identifier (join example_emissions example_segments)) = {2, 3}"
proof -
  have e: "set (map segment_identifier example_emissions) = {1, 2, 3}"
    by (simp add: example_emissions_def)
  have s: "set (map osmid example_segments) = {2, 3, 4}"
    by (simp add: example_segments_def)
  have l: "map feature_identifier (join example_emissions example_segments) = [2, 3]"
    by (simp add: join_def feature_identifier_def example_emissions_def example_segments_def)
  from e s l join_inner [of 2 example_emissions example_segments] show ?thesis by simp
qed

subsection \<open>The latitude of the control file\<close>

lemma main_in_dat_latitude:
  "adds_only (main E a) (in_dat_latitude_is ((north a + south a) / 2))"
  unfolding body_defs
  by (intro adds_only_intros) (simp_all add: mean_latitude_def location_def)

lemma gral_example_in_dat:
  "Call [''greb''] (Create_in_dat_file 500 3600 10.05 [3, 6, 9, 12, 15]) None [''greb'', ''in.dat'']
     \<in> set (trace (run_main ok_env example_args []))"
  by (simp add: run_defs exec_simps ok_env_def example_args_def)

text \<open>
  C3. The latitude passed to the InDat stage is the arithmetic mean of the north and
  south latitudes of the geographic bounding box given in the arguments, whatever the
  coordinate conversion returns; for north 10.1 and south 10.0 it is 10.05.
\<close>

theorem in_dat_latitude:
  "(Call w1 (Create_in_dat_file p t l hs) r w2 \<in> set (trace (run_main E a w))
      \<longrightarrow> l = (north a + south a) / 2)
   \<and> (north b = 10.1 \<and> south b = 10.0 \<longrightarrow> mean_latitude b = (10.05 :: real))"
proof (intro conjI impI)
  assume m: "Call w1 (Create_in_dat_file p t l hs) r w2 \<in> set (trace (run_main E a w))"
  have "list_all (in_dat_latitude_is ((north a + south a) / 2)) (trace (run_main E a w))"
    by (rule adds_only_run [OF main_in_dat_latitude])
  with m show "l = (north a + south a) / 2"
    by (auto simp: list_all_iff)
next
  assume "north b = 10.1 \<and> south b = 10.0"
  then show "mean_latitude b = (10.05 :: real)"
    by (simp add: mean_latitude_def location_def)
qed

theorem in_dat_latitude_witness:
  "Call [''greb''] (Create_in_dat_file 500 3600 10.05 [3, 6, 9, 12, 15]) None [''greb'', ''in.dat'']
     \<in> set (trace (run_main ok_env example_args []))
   \<and> north example_args = 10.1 \<and> south example_args = 10.0
   \<and> (10.05 :: real) = (north example_args + south example_args) / 2
   \<and> mean_latitude example_args = 10.05"
proof -
  have n: "north example_args = 10.1 \<and> south example_args = 10.0"
    by (simp add: example_args_def)
  from in_dat_latitude [where E = ok_env and a = example_args and w = "[]" and b = example_args
      and l = "10.05" and ?w1.0 = "[''greb'']" and ?w2.0 = "[''greb'', ''in.dat'']" and r = None
      and p = 500 and t = 3600 and hs = "[3, 6, 9, 12, 15]"]
    gral_example_in_dat n
  show ?thesis by blast
qed

lemma gral_example_stages:
  "stages (trace (run_main ok_env example_args [])) =
     [GREB, InDat, Meteogpt, OtherRequiredFiles, Buildings, LineEmissions, OptionalFiles]"
  by (simp add: run_defs exec_simps ok_env_def example_args_def)

lemma gral_example_returns: "fst (main_body ok_env example_args (start [])) = Inr ()"
  by (simp add: run_defs exec_simps ok_env_def example_args_def)

subsection \<open>The dispatch on the process mode\<close>

text \<open>
  C10. The dispatch is exclusive at the sequencer boundary. In a mode other than
  \<^verbatim>\<open>gral\<close> (so in the mode \<^verbatim>\<open>all\<close>) no GRAL file writer is called; in the mode \<^verbatim>\<open>gral\<close>
  nothing of the buildings, weather, highway and map branches happens and the body of
  \<^verbatim>\<open>main\<close> is the GRAL branch alone; in the mode \<^verbatim>\<open>all\<close> the body is the buildings,
  weather, highway and map branches, in this order, and nothing else.
\<close>

theorem process_dispatch:
  "(process a \<noteq> ''gral'' \<longrightarrow> stages (trace (run_main E a w)) = [])
   \<and> (process a = ''gral'' \<longrightarrow>
        filter branch_entry (trace (run_main E a w)) = []
        \<and> main_body E a = bnd (create_modules E a) (\<lambda>u. gral_branch E a))
   \<and> (process a = ''all'' \<longrightarrow>
        main_body E a =
          bnd (create_modules E a) (\<lambda>u. bnd (buildings_branch E a) (\<lambda>u.
          bnd (weather_branch E a) (\<lambda>u. bnd (highway_branch E a) (\<lambda>u. map_branch E a)))))"
proof (intro conjI impI)
  assume "process a \<noteq> ''gral''"
  then show "stages (trace (run_main E a w)) = []"
    by (intro stages_none adds_only_run main_no_stage)
next
  assume "process a = ''gral''"
  then show "filter branch_entry (trace (run_main E a w)) = []"
    by (intro filter_none adds_only_run main_gral_no_branch)
qed (simp_all add: main_body_gral main_body_all)

theorem process_dispatch_witness:
  "process all_args \<noteq> ''gral'' \<and> process all_args = ''all''
   \<and> process example_args = ''gral''
   \<and> stages (trace (run_main ok_env all_args [])) = []
   \<and> filter branch_entry (trace (run_main ok_env example_args [])) = []
   \<and> stages (trace (run_main ok_env example_args [])) = gral_stage_order
   \<and> length (filter branch_entry (trace (run_main ok_env all_args []))) = 21
   \<and> main_body ok_env example_args
        = bnd (create_modules ok_env example_args) (\<lambda>u. gral_branch ok_env example_args)
   \<and> main_body ok_env all_args =
        bnd (create_modules ok_env all_args) (\<lambda>u. bnd (buildings_branch ok_env all_args) (\<lambda>u.
        bnd (weather_branch ok_env all_args) (\<lambda>u. bnd (highway_branch ok_env all_args) (\<lambda>u.
        map_branch ok_env all_args))))"
proof -
  have p: "process all_args \<noteq> ''gral''" "process all_args = ''all''"
    "process example_args = ''gral''"
    by (simp_all add: all_args_def example_args_def)
  have n: "length (filter branch_entry (trace (run_main ok_env all_args []))) = 21"
    by (simp add: run_defs exec_simps ok_env_def all_args_def example_args_def example_series_def)
  from p n gral_example_stages
    process_dispatch [where E = ok_env and a = all_args and w = "[]"]
    process_dispatch [where E = ok_env and a = example_args and w = "[]"]
  show ?thesis by (simp add: gral_stage_order_def)
qed

subsection \<open>The order of the GRAL stages\<close>

lemma gral_branch_stages:
  assumes "gral_branch E a s = (r, s')"
  shows "\<exists>ext. trace s' = trace s @ ext \<and> prefix (stages ext) gral_stage_order
          \<and> (r = Inr () \<longrightarrow> stages ext = gral_stage_order)"
  using assms
  by (auto simp: gral_branch_def location_epsg_new_def exec_simps ret_def gral_stage_order_def
      split: prod.splits sum.splits)

lemma main_body_gral_stages:
  assumes g: "process a = ''gral''" and run: "main_body E a (start w) = (r, s')"
  shows "prefix (stages (trace s')) gral_stage_order
          \<and> (r = Inr () \<longrightarrow> stages (trace s') = gral_stage_order)"
proof -
  obtain r1 s1 where m: "create_modules E a (start w) = (r1, s1)"
    by (cases "create_modules E a (start w)")
  from adds_onlyD [OF create_modules_no_stage m]
  have s1: "stages (trace s1) = []"
    by (auto simp: start_def stages_none)
  show ?thesis
  proof (cases r1)
    case (Inl e)
    with run m g have "r = Inl e" "s' = s1"
      by (simp_all add: main_body_gral bnd_def)
    with s1 show ?thesis by simp
  next
    case (Inr u)
    with run m g have "gral_branch E a s1 = (r, s')"
      by (simp add: main_body_gral bnd_def)
    from gral_branch_stages [OF this] s1 show ?thesis
      by (auto simp: stages_append)
  qed
qed

lemma run_main_stages:
  "main_body E a (start w) = (r, s') \<Longrightarrow> stages (trace (run_main E a w)) = stages (trace s')"
  by (cases r) (simp_all add: run_main_def main_def try_except_def print_py_def stages_append)

text \<open>
  C1 (as amended). The file writers of the GRAL branch are called in the order GREB,
  InDat, Meteogpt, OtherRequiredFiles, Buildings, LineEmissions, OptionalFiles: in every
  run the stages called form an initial part of that order, so no stage is called
  twice or out of turn, and in the mode \<^verbatim>\<open>gral\<close> all seven are called when the body of
  \<^verbatim>\<open>main\<close> runs to its end.
\<close>

theorem stage_order:
  "prefix (stages (trace (run_main E a w))) gral_stage_order
   \<and> (process a = ''gral'' \<and> fst (main_body E a (start w)) = Inr ()
        \<longrightarrow> stages (trace (run_main E a w)) = gral_stage_order)"
proof (cases "process a = ''gral''")
  case True
  obtain r s' where run: "main_body E a (start w) = (r, s')"
    by (cases "main_body E a (start w)")
  from main_body_gral_stages [OF True run] run_main_stages [OF run] run
  show ?thesis by simp
next
  case False
  then have "stages (trace (run_main E a w)) = []"
    by (intro stages_none adds_only_run main_no_stage)
  with False show ?thesis by simp
qed

theorem stage_order_witness:
  "process example_args = ''gral''
   \<and> fst (main_body ok_env example_args (start [])) = Inr ()
   \<and> prefix (stages (trace (run_main ok_env example_args []))) gral_stage_order
   \<and> stages (trace (run_main ok_env example_args [])) = gral_stage_order"
proof -
  have "process example_args = ''gral''" by (simp add: example_args_def)
  with gral_example_returns stage_order [where E = ok_env and a = example_args and w = "[]"]
  show ?thesis by simp
qed

text \<open>
  C1 as the specification words it, with Meteogpt first, fails: with collaborators that
  all succeed the first writer called is the one of the GREB file, and the meteogpt
  file comes third.
\<close>

theorem stage_order_counterexample:
  "stages (trace (run_main ok_env example_args [])) =
     [GREB, InDat, Meteogpt, OtherRequiredFiles, Buildings, LineEmissions, OptionalFiles]
   \<and> stages (trace (run_main ok_env example_args [])) \<noteq> spec_stage_order"
  by (simp add: run_defs exec_simps ok_env_def example_args_def spec_stage_order_def)

subsection \<open>GREB before InDat\<close>

lemma gral_branch_in_dat:
  assumes "gral_branch E a s = (r, s')"
  shows "(\<exists>ext. trace s' = trace s @ ext \<and> list_all (\<lambda>e. entry_stage e \<noteq> Some InDat) ext)
       \<or> (\<exists>c1 c2 w0 bbox k w1 ri w2 post.
            trace s' = trace s @ c1 # c2 # Call w0 (Create_greb_file bbox k) None w1
              # Call w1 (Create_in_dat_file 500 3600 (mean_latitude a) horizontal_layers) ri w2 # post
            \<and> list_all (\<lambda>e. entry_stage e \<noteq> Some InDat) (c1 # c2 # post))"
  using assms
  by (auto simp: gral_branch_def location_epsg_new_def exec_simps ret_def
      split: prod.splits sum.splits)

text \<open>
  C6. In every run, a call of the InDat writer is preceded immediately by a call of the
  GREB writer that returned without an exception, and the InDat writer starts in the
  world that the GREB writer left: the GREB step is complete, with whatever it wrote on
  disk, when the InDat step begins.
\<close>

theorem greb_before_in_dat:
  assumes x: "Call w1 (Create_in_dat_file p t l hs) r w2 \<in> set (trace (run_main E a w))"
  shows "\<exists>pre post w0 bbox k.
           trace (run_main E a w) =
             pre @ Call w0 (Create_greb_file bbox k) None w1
               # Call w1 (Create_in_dat_file p t l hs) r w2 # post"
proof (cases "process a = ''gral''")
  case False
  then have "list_all (\<lambda>e. entry_stage e = None) (trace (run_main E a w))"
    by (intro adds_only_run main_no_stage)
  with x show ?thesis by (auto simp: list_all_iff)
next
  case True
  obtain rb sb where body: "main_body E a (start w) = (rb, sb)"
    by (cases "main_body E a (start w)")
  obtain r1 s1 where m: "create_modules E a (start w) = (r1, s1)"
    by (cases "create_modules E a (start w)")
  from adds_onlyD [OF create_modules_no_stage m]
  have s1: "list_all (\<lambda>e. entry_stage e = None) (trace s1)"
    by (auto simp: start_def)
  define tl where "tl = (case rb of Inl e \<Rightarrow> [Print (''An error occurred: '' @ exn_str e)]
                                   | Inr u \<Rightarrow> ([] :: ('a, 'b, 'c) entry list))"
  have tr: "trace (run_main E a w) = trace sb @ tl"
    by (simp add: run_main_trace [OF body] tl_def split: sum.splits)
  have tl: "list_all (\<lambda>e. entry_stage e = None) tl"
    by (simp add: tl_def split: sum.splits)
  show ?thesis
  proof (cases r1)
    case (Inl e)
    with body m True have "sb = s1" by (simp add: main_body_gral bnd_def)
    with x tr s1 tl show ?thesis by (auto simp: list_all_iff)
  next
    case (Inr u)
    with body m True have g: "gral_branch E a s1 = (rb, sb)"
      by (simp add: main_body_gral bnd_def)
    from gral_branch_in_dat [OF g] show ?thesis
    proof (elim disjE exE conjE)
      fix ext assume "trace sb = trace s1 @ ext"
        and "list_all (\<lambda>e. entry_stage e \<noteq> Some InDat) ext"
      with x tr s1 tl show ?thesis by (auto simp: list_all_iff)
    next
      fix c1 c2 w0 bbox k v1 ri v2 post
      assume sb: "trace sb = trace s1 @ c1 # c2 # Call w0 (Create_greb_file bbox k) None v1
          # Call v1 (Create_in_dat_file 500 3600 (mean_latitude a) horizontal_layers) ri v2 # post"
        and rest: "list_all (\<lambda>e. entry_stage e \<noteq> Some InDat) (c1 # c2 # post)"
      from x tr sb s1 tl rest
      have "Call w1 (Create_in_dat_file p t l hs) r w2 =
            Call v1 (Create_in_dat_file 500 3600 (mean_latitude a) horizontal_layers) ri v2"
        by (auto simp: list_all_iff)
      with tr sb have "trace (run_main E a w) =
          (trace s1 @ [c1, c2]) @ Call w0 (Create_greb_file bbox k) None w1
            # Call w1 (Create_in_dat_file p t l hs) r w2 # (post @ tl)"
        by simp
      then show ?thesis by blast
    qed
  qed
qed

theorem greb_before_in_dat_witness:
  "Call [''greb''] (Create_in_dat_file 500 3600 10.05 [3, 6, 9, 12, 15]) None [''greb'', ''in.dat'']
     \<in> set (trace (run_main ok_env example_args []))
   \<and> (\<exists>pre post w0 bbox k.
         trace (run_main ok_env example_args []) =
           pre @ Call w0 (Create_greb_file bbox k) None [''greb'']
             # Call [''greb''] (Create_in_dat_file 500 3600 10.05 [3, 6, 9, 12, 15]) None
                 [''greb'', ''in.dat'']
             # post)"
  using gral_example_in_dat greb_before_in_dat [OF gral_example_in_dat] by blast

subsection \<open>The resolution of the bounding box\<close>

lemma example_bbox:
  "location_epsg_new ok_env example_args (start []) =
     (Inr \<lparr>north = 10100, south = 10000, east = 20100, west = 20000\<rparr>, example_bbox_state)"
  by (simp add: location_epsg_new_def location_def exec_simps ret_def ok_env_def
      example_args_def start_def example_bbox_state_def)

text \<open>
  C7. When the resolution of the bounding box returns a box, the coordinate converter
  has been called exactly twice, on the corner (west, north) and then on the corner
  (east, south) of the arguments, and the four scalars of the box are the four
  coordinates those two calls returned: north and west from the first, south and east
  from the second.
\<close>

theorem bbox_corner_wise:
  "location_epsg_new E a s = (Inr bbox, s') \<Longrightarrow>
     \<exists>x1 y1 x2 y2 w1.
        convert_coordinates E (west a) (north a) 4326 (epsg a) (world s) = (Inr (x1, y1), w1)
      \<and> convert_coordinates E (east a) (south a) 4326 (epsg a) w1 = (Inr (x2, y2), world s')
      \<and> bbox = \<lparr>north = y1, south = y2, east = x2, west = x1\<rparr>
      \<and> trace s' = trace s @
           [Call (world s) (Convert_coordinates (west a) (north a) 4326 (epsg a)) None w1,
            Call w1 (Convert_coordinates (east a) (south a) 4326 (epsg a)) None (world s')]"
  by (auto simp: location_epsg_new_def location_def exec_simps ret_def
      split: prod.splits sum.splits)

theorem bbox_corner_wise_witness:
  "location_epsg_new ok_env example_args (start []) =
     (Inr \<lparr>north = 10100, south = 10000, east = 20100, west = 20000\<rparr>, example_bbox_state)
   \<and> (\<exists>x1 y1 x2 y2 w1.
        convert_coordinates ok_env (west example_args) (north example_args) 4326
          (epsg example_args) (world (start [] :: (real, string, string list) state)) = (Inr (x1, y1), w1)
      \<and> convert_coordinates ok_env (east example_args) (south example_args) 4326
          (epsg example_args) w1 = (Inr (x2, y2), world example_bbox_state)
      \<and> \<lparr>north = 10100, south = 10000, east = 20100, west = 20000\<rparr>
          = \<lparr>north = y1, south = y2, east = x2, west = x1\<rparr>
      \<and> trace example_bbox_state
          = trace (start [] :: (real, string, string list) state) @
             [Call (world (start [] :: (real, string, string list) state))
                (Convert_coordinates (west example_args) (north example_args) 4326
                   (epsg example_args)) None w1,
              Call w1
                (Convert_coordinates (east example_args) (south example_args) 4326
                   (epsg example_args)) None (world example_bbox_state)])"
  by (rule conjI [OF example_bbox bbox_corner_wise [OF example_bbox]])

text \<open>
  C2 (as amended). The resolution of the bounding box checks no ordering. Whenever the
  two corner conversions return, it returns the box built from the coordinates that
  came back, unchanged and unswapped, whether or not north exceeds south and east
  exceeds west; and an exception leaves it only when a conversion raised it.
\<close>

theorem bbox_unchecked:
  "(convert_coordinates E (west a) (north a) 4326 (epsg a) (world s) = (Inr (x1, y1), w1)
      \<and> convert_coordinates E (east a) (south a) 4326 (epsg a) w1 = (Inr (x2, y2), w2)
    \<longrightarrow> fst (location_epsg_new E a s) = Inr \<lparr>north = y1, south = y2, east = x2, west = x1\<rparr>)
   \<and> (location_epsg_new E a s = (Inl e, s')
    \<longrightarrow> (\<exists>pre w0 x y. trace s' =
           pre @ [Call w0 (Convert_coordinates x y 4326 (epsg a)) (Some e) (world s')]))"
  by (auto simp: location_epsg_new_def location_def exec_simps ret_def
      split: prod.splits sum.splits)

theorem bbox_unchecked_witness:
  "convert_coordinates south_up_env (west example_args) (north example_args) 4326
       (epsg example_args) (world (start [] :: (real, string, string list) state))
       = (Inr (20000, - 10100), [])
   \<and> convert_coordinates south_up_env (east example_args) (south example_args) 4326
       (epsg example_args) [] = (Inr (20100, - 10000), [])
   \<and> fst (location_epsg_new south_up_env example_args (start []))
       = Inr \<lparr>north = - 10100, south = - 10000, east = 20100, west = 20000\<rparr>
   \<and> location_epsg_new no_proj_env example_args (start []) =
       (Inl (Exception ''ProjectionError'' ''unknown EPSG code''),
        \<lparr>world = [],
         trace = [Call [] (Convert_coordinates 20 10.1 4326 32633)
                    (Some (Exception ''ProjectionError'' ''unknown EPSG code'')) []]\<rparr>)
   \<and> (\<exists>pre w0 x y.
         [Call [] (Convert_coordinates 20 10.1 4326 32633)
            (Some (Exception ''ProjectionError'' ''unknown EPSG code'')) []] =
         pre @ [Call w0 (Convert_coordinates x y 4326 (epsg example_args))
                  (Some (Exception ''ProjectionError'' ''unknown EPSG code'')) ([] :: string list)
                :: (real, string, string list) entry])"
proof -
  have c1: "convert_coordinates south_up_env (west example_args) (north example_args) 4326
       (epsg example_args) (world (start [] :: (real, string, string list) state))
       = (Inr (20000, - 10100), [])"
    by (simp add: south_up_env_def ok_env_def example_args_def start_def)
  have c2: "convert_coordinates south_up_env (east example_args) (south example_args) 4326
       (epsg example_args) [] = (Inr (20100, - 10000), [])"
    by (simp add: south_up_env_def ok_env_def example_args_def)
  have r: "location_epsg_new no_proj_env example_args (start []) =
       (Inl (Exception ''ProjectionError'' ''unknown EPSG code''),
        \<lparr>world = [],
         trace = [Call [] (Convert_coordinates 20 10.1 4326 32633)
                    (Some (Exception ''ProjectionError'' ''unknown EPSG code'')) []]\<rparr>)"
    by (simp add: location_epsg_new_def location_def exec_simps no_proj_env_def ok_env_def
        example_args_def start_def)
  from bbox_unchecked [where E = south_up_env and a = example_args and s = "start []"
      and ?x1.0 = 20000 and ?y1.0 = "- 10100" and ?x2.0 = 20100 and ?y2.0 = "- 10000"
      and ?w1.0 = "[]" and ?w2.0 = "[]"] c1 c2
  have a: "fst (location_epsg_new south_up_env example_args (start []))
       = Inr \<lparr>north = - 10100, south = - 10000, east = 20100, west = 20000\<rparr>"
    by blast
  from bbox_unchecked [where E = no_proj_env and a = example_args and s = "start []"
      and e = "Exception ''ProjectionError'' ''unknown EPSG code''"
      and s' = "\<lparr>world = [],
         trace = [Call [] (Convert_coordinates 20 10.1 4326 32633)
                    (Some (Exception ''ProjectionError'' ''unknown EPSG code'')) []]\<rparr>"] r
  have b: "\<exists>pre w0 x y.
         [Call [] (Convert_coordinates 20 10.1 4326 32633)
            (Some (Exception ''ProjectionError'' ''unknown EPSG code'')) []] =
         pre @ [Call w0 (Convert_coordinates x y 4326 (epsg example_args))
                  (Some (Exception ''ProjectionError'' ''unknown EPSG code'')) ([] :: string list)
                :: (real, string, string list) entry]"
    by simp
  from c1 c2 a r b show ?thesis by blast
qed

text \<open>
  C2 as the specification words it fails: a projection into a system whose second axis
  points south turns the box upside down, and the resolution returns that box, with
  north below south, instead of raising; the GRAL branch then hands the same box to the
  writer of the GREB file and runs to its end without a diagnostic.
\<close>

theorem bbox_unchecked_counterexample:
  "fst (location_epsg_new south_up_env example_args (start []))
     = Inr \<lparr>north = - 10100, south = - 10000, east = 20100, west = 20000\<rparr>
   \<and> \<not> (- 10100 > (- 10000 :: real))
   \<and> Call [] (Create_greb_file \<lparr>north = - 10100, south = - 10000, east = 20100, west = 20000\<rparr> 5)
        None [''greb''] \<in> set (trace (run_main south_up_env example_args []))
   \<and> fst (main_body south_up_env example_args (start [])) = Inr ()"
  by (simp add: run_defs exec_simps south_up_env_def ok_env_def example_args_def)

subsection \<open>The handler of \<^verbatim>\<open>main\<close>\<close>

lemma main_never_raises: "fst (main E a s) = Inr ()"
  by (simp add: main_def try_except_def print_py_def split: prod.splits sum.splits)

lemma main_body_raises:
  assumes "main_body E a s = (Inl e, s1)"
  shows "main E a s = (Inr (), s1\<lparr>trace := trace s1 @ [Print (''An error occurred: '' @ exn_str e)]\<rparr>)
       \<and> (\<exists>pre c w0. trace s1 = pre @ [Call w0 c (Some e) (world s1)])"
proof -
  from fail_fastD [OF fail_fast_main_body assms]
  obtain pre c w0 where "trace s1 = trace s @ pre @ [Call w0 c (Some e) (world s1)]"
    by auto
  then have "trace s1 = (trace s @ pre) @ [Call w0 c (Some e) (world s1)]" by simp
  then have "\<exists>pre c w0. trace s1 = pre @ [Call w0 c (Some e) (world s1)]" by blast
  with assms show ?thesis by (simp add: main_def try_except_def print_py_def)
qed

lemma raise_ends_run:
  assumes h: "trace (run_main E a w) = pre @ Call w0 c (Some e) w1 # post" "\<not> shapefile_call c"
  shows "post = [Print (''An error occurred: '' @ exn_str e)] \<and> world (run_main E a w) = w1"
proof -
  obtain rb sb where body: "main_body E a (start w) = (rb, sb)"
    by (cases "main_body E a (start w)")
  from fail_fastD [OF fail_fast_main_body body] obtain ext where ext: "trace sb = ext"
    and c: "case rb of Inr x \<Rightarrow> list_all quiet ext
        | Inl e' \<Rightarrow> \<exists>pre' c' v. ext = pre' @ [Call v c' (Some e') (world sb)] \<and> list_all quiet pre'"
    by (auto simp: start_def)
  have nq: "\<not> quiet (Call w0 c (Some e) w1 :: ('a, 'b, 'c) entry)"
    using h by simp
  show ?thesis
  proof (cases rb)
    case (Inr u)
    with body have "trace (run_main E a w) = trace sb" by (simp add: run_main_trace)
    with h ext c Inr nq show ?thesis by (auto simp: list_all_iff)
  next
    case (Inl e')
    with c obtain pre' c' v where e1: "ext = pre' @ [Call v c' (Some e') (world sb)]"
      and q: "list_all quiet pre'" by auto
    from Inl body have r: "run_main E a w =
        sb\<lparr>trace := trace sb @ [Print (''An error occurred: '' @ exn_str e')]\<rparr>"
      by (simp add: run_main_trace)
    with h ext e1 have "pre @ Call w0 c (Some e) w1 # post =
        pre' @ [Call v c' (Some e') (world sb), Print (''An error occurred: '' @ exn_str e')]"
      by simp
    moreover from q nq have "Call w0 c (Some e) w1 \<notin> set pre'" by (auto simp: list_all_iff)
    ultimately have "pre = pre' \<and> Call w0 c (Some e) w1 = Call v c' (Some e') (world sb)
        \<and> post = [Print (''An error occurred: '' @ exn_str e')]"
      by (intro raise_is_last) simp_all
    with r show ?thesis by simp
  qed
qed

lemma no_met_body: "main_body no_met_env example_args (start []) = (Inl no_met_error, no_met_state)"
  by (simp add: run_defs exec_simps no_met_env_def ok_env_def example_args_def
      no_met_state_def no_met_error_def example_gral_prefix_def)

lemma no_met_run:
  "run_main no_met_env example_args [] =
     no_met_state\<lparr>trace := trace no_met_state @ [Print ''An error occurred: no met file'']\<rparr>"
  by (simp add: run_main_trace [OF no_met_body] no_met_error_def)

text \<open>
  C8. \<^verbatim>\<open>main\<close> never raises. When the body of its \<^verbatim>\<open>try\<close> statement raises an exception,
  the call that raised it is the last thing the body did, so no later stage runs;
  \<^verbatim>\<open>main\<close> prints \<^verbatim>\<open>An error occurred:\<close> followed by the text of the exception, changes
  nothing else, and returns. In terms of a whole run: a call that raised, other than one
  inside \<^verbatim>\<open>create_shapefile\<close>, is followed by that one printed line and nothing more, and
  the world at the end is the one that call left.
\<close>

theorem main_catches_all:
  "fst (main E a s) = Inr ()
   \<and> (main_body E a s = (Inl e, s1) \<longrightarrow>
        main E a s = (Inr (), s1\<lparr>trace := trace s1 @ [Print (''An error occurred: '' @ exn_str e)]\<rparr>)
        \<and> (\<exists>pre c w0. trace s1 = pre @ [Call w0 c (Some e) (world s1)]))
   \<and> (trace (run_main E a w) = pre @ Call w0 c (Some e) w1 # post \<and> \<not> shapefile_call c
      \<longrightarrow> post = [Print (''An error occurred: '' @ exn_str e)] \<and> world (run_main E a w) = w1)"
proof (rule conjI [OF main_never_raises], rule conjI)
  show "main_body E a s = (Inl e, s1) \<longrightarrow>
        main E a s = (Inr (), s1\<lparr>trace := trace s1 @ [Print (''An error occurred: '' @ exn_str e)]\<rparr>)
        \<and> (\<exists>pre c w0. trace s1 = pre @ [Call w0 c (Some e) (world s1)])"
    by (rule impI) (rule main_body_raises)
  show "trace (run_main E a w) = pre @ Call w0 c (Some e) w1 # post \<and> \<not> shapefile_call c
      \<longrightarrow> post = [Print (''An error occurred: '' @ exn_str e)] \<and> world (run_main E a w) = w1"
    by (rule impI, erule conjE) (rule raise_ends_run)
qed

theorem main_catches_all_witness:
  "main_body no_met_env example_args (start []) = (Inl no_met_error, no_met_state)
   \<and> main no_met_env example_args (start []) =
       (Inr (), no_met_state\<lparr>trace := trace no_met_state @ [Print ''An error occurred: no met file'']\<rparr>)
   \<and> trace (run_main no_met_env example_args []) =
       example_gral_prefix @ Call [''greb'', ''in.dat''] Create_meteogpt_file (Some no_met_error)
           [''greb'', ''in.dat''] # [Print ''An error occurred: no met file'']
   \<and> \<not> shapefile_call (Create_meteogpt_file :: (real, string) call)
   \<and> world (run_main no_met_env example_args []) = [''greb'', ''in.dat'']
   \<and> stages (trace (run_main no_met_env example_args [])) = [GREB, InDat, Meteogpt]"
proof -
  have t: "trace (run_main no_met_env example_args []) =
       example_gral_prefix @ Call [''greb'', ''in.dat''] Create_meteogpt_file (Some no_met_error)
           [''greb'', ''in.dat''] # [Print ''An error occurred: no met file'']"
    by (simp add: no_met_run no_met_state_def)
  have n: "\<not> shapefile_call (Create_meteogpt_file :: (real, string) call)" by simp
  have st: "stages (trace (run_main no_met_env example_args [])) = [GREB, InDat, Meteogpt]"
    by (simp add: t example_gral_prefix_def)
  from main_catches_all [where E = no_met_env and a = example_args and s = "start []"
      and e = no_met_error and ?s1.0 = no_met_state and w = "[]" and pre = example_gral_prefix
      and ?w0.0 = "[''greb'', ''in.dat'']" and c = Create_meteogpt_file
      and ?w1.0 = "[''greb'', ''in.dat'']" and post = "[Print ''An error occurred: no met file'']"]
    no_met_body t n st
  show ?thesis by (simp add: no_met_error_def)
qed

subsection \<open>\<^verbatim>\<open>create_shapefile\<close> keeps its failures\<close>

lemma no_disk_shapefile:
  "create_shapefile no_disk_env ''buildings_gdf'' ''EPSG:32633'' ''out'' ''buildings.shp'' (start [])
     = (Inr (), \<lparr>world = [], trace = no_disk_entries\<rparr>)"
  by (simp add: create_shapefile_def try_except_def print_py_def exec_simps start_def
      no_disk_env_def ok_env_def no_disk_entries_def)

lemma no_disk_continues:
  "Call [] (Process_weather_data ''weather.csv'') None []
     \<in> set (trace (run_main no_disk_env all_args []))"
  by (simp add: run_defs exec_simps no_disk_env_def ok_env_def all_args_def example_args_def
      example_series_def)

text \<open>
  C9. \<^verbatim>\<open>create_shapefile\<close> never propagates an exception: it always returns \<^verbatim>\<open>None\<close>,
  so whatever follows it in the caller runs, from the state it left; and when one of its
  calls (reprojection, setting the CRS, writing the file) raised, the last thing it did
  was to print \<^verbatim>\<open>Failed to create shapefile:\<close> followed by the text of the exception, in
  the world the failed call left.
\<close>

theorem create_shapefile_never_raises:
  "fst (create_shapefile E g cs d f s) = Inr ()
   \<and> bnd (create_shapefile E g cs d f) k s = k () (snd (create_shapefile E g cs d f s))
   \<and> (trace (snd (create_shapefile E g cs d f s)) = trace s @ ext
        \<and> Call w0 c (Some e) w1 \<in> set ext
      \<longrightarrow> last ext = Print (''Failed to create shapefile: '' @ exn_str e)
          \<and> world (snd (create_shapefile E g cs d f s)) = w1)"
  by (auto simp: create_shapefile_def try_except_def print_py_def exec_simps bnd_def
      split: prod.splits sum.splits)

theorem create_shapefile_never_raises_witness:
  "trace (snd (create_shapefile no_disk_env ''buildings_gdf'' ''EPSG:32633'' ''out''
            ''buildings.shp'' (start [])))
     = trace (start [] :: (real, string, string list) state) @ no_disk_entries
   \<and> Call [] (To_file ''buildings_gdf'' ''out/buildings.shp'')
        (Some (Exception ''OSError'' ''disk full'')) [] \<in> set no_disk_entries
   \<and> fst (create_shapefile no_disk_env ''buildings_gdf'' ''EPSG:32633'' ''out''
            ''buildings.shp'' (start [])) = Inr ()
   \<and> last no_disk_entries = Print ''Failed to create shapefile: disk full''
   \<and> world (snd (create_shapefile no_disk_env ''buildings_gdf'' ''EPSG:32633'' ''out''
            ''buildings.shp'' (start []))) = []
   \<and> Call [] (Process_weather_data ''weather.csv'') None []
        \<in> set (trace (run_main no_disk_env all_args []))"
proof -
  have t: "trace (snd (create_shapefile no_disk_env ''buildings_gdf'' ''EPSG:32633'' ''out''
            ''buildings.shp'' (start [])))
     = trace (start [] :: (real, string, string list) state) @ no_disk_entries"
    by (simp add: no_disk_shapefile) (simp add: start_def)
  have m: "Call [] (To_file ''buildings_gdf'' ''out/buildings.shp'')
        (Some (Exception ''OSError'' ''disk full'')) [] \<in> set no_disk_entries"
    by (simp add: no_disk_entries_def)
  from create_shapefile_never_raises [where E = no_disk_env and g = "''buildings_gdf''"
      and cs = "''EPSG:32633''" and d = "''out''" and f = "''buildings.shp''" and s = "start []"
      and ext = no_disk_entries and ?w0.0 = "[]" and ?w1.0 = "[]"
      and c = "To_file ''buildings_gdf'' ''out/buildings.shp''"
      and e = "Exception ''OSError'' ''disk full''" and k = ret]
    t m no_disk_continues
  show ?thesis by simp
qed

end
